theory Spec2Isabelle
  imports Complex_Main "HOL-Library.AList"
begin

section \<open>Pop Logic: the game state of \<^verbatim>\<open>script.js\<close>\<close>

text \<open>
  The development embeds the state-changing part of \<^verbatim>\<open>script.js\<close>: the balloon
  configuration, the random helpers, the three level simulations and the loader of the
  persisted state. Writes to the page (text, classes, charts, particles) are left out:
  no function below reads them back.

  \<^verbatim>\<open>Math.random()\<close> is an input: every function that draws takes the drawn numbers
  as arguments, in the order in which the source draws them. A draw is a rational
  number; the source's doubles are read as the exact numbers they denote.
\<close>

subsection \<open>Balloon configuration and random helpers\<close>

datatype Color = Red | Blue | Green | Yellow

text \<open>\<^verbatim>\<open>BALLOON_CONFIG[c].range\<close>; the two colour strings of an entry are page styling.\<close>

fun BALLOON_CONFIG_range :: "Color \<Rightarrow> int \<times> int" where
  "BALLOON_CONFIG_range Red = (6, 12)"
| "BALLOON_CONFIG_range Blue = (4, 6)"
| "BALLOON_CONFIG_range Green = (2, 8)"
| "BALLOON_CONFIG_range Yellow = (1, 20)"

text \<open>\<^verbatim>\<open>getRandomInt = (min, max) => Math.floor(Math.random() * (max - min + 1)) + min\<close>,
  with the value of \<^verbatim>\<open>Math.random()\<close> as first argument.\<close>

definition getRandomInt :: "rat \<Rightarrow> int \<Rightarrow> int \<Rightarrow> int" where
  "getRandomInt rand mn mx = \<lfloor>rand * of_int (mx - mn + 1)\<rfloor> + mn"

text \<open>\<^verbatim>\<open>getL2RandomBalloon\<close>: the weighted colour draw of levels 2 and 3.\<close>

definition getL2RandomBalloon :: "rat \<Rightarrow> Color" where
  "getL2RandomBalloon rand =
     (if rand < 3 / 10 then Red
      else if rand < 6 / 10 then Blue
      else if rand < 8 / 10 then Green
      else Yellow)"

text \<open>\<^verbatim>\<open>Math.round\<close> rounds to the nearest integer, halves towards plus infinity.\<close>

definition Math_round :: "rat \<Rightarrow> int" where
  "Math_round x = \<lfloor>x + 1 / 2\<rfloor>"

subsection \<open>Level 3: the temperature-skewed range\<close>

text \<open>
  The range from which \<^verbatim>\<open>runL3Simulation\<close> draws \<^verbatim>\<open>maxPumps\<close>: the lines from
  \<^verbatim>\<open>tempDiff\<close> to the second \<^verbatim>\<open>Math.max\<close> of the interval callback.
\<close>

definition l3Range :: "Color \<Rightarrow> int \<Rightarrow> int \<times> int" where
  "l3Range type temp =
     (let tempDiff = temp - 20;
          percentChange = Math_round (of_int tempDiff / 2);
          (mn0, mx0) = BALLOON_CONFIG_range type;
          mn = max 1 (Math_round (of_int mn0 * (1 - of_int percentChange / 100)));
          mx = max (mn + 1) (Math_round (of_int mx0 * (1 - of_int percentChange / 100)))
      in (mn, mx))"

subsection \<open>The game state\<close>

text \<open>
  \<^verbatim>\<open>statsTemplate\<close> and the per-colour statistics. \<^verbatim>\<open>stats\<close> holds one entry for each
  of the four colours once \<^verbatim>\<open>resetStats\<close> or \<^verbatim>\<open>resetL2Simulation\<close> has run, so it is a
  total function on \<open>Color\<close>; every entry is a copy of its own (\<^verbatim>\<open>{...statsTemplate}\<close>).
\<close>

record ColorStat =
  score :: int
  pops :: int
  count :: int
  pumps :: int

type_synonym Stats = "Color \<Rightarrow> ColorStat"

definition statsTemplate :: ColorStat where
  "statsTemplate = \<lparr>score = 0, pops = 0, count = 0, pumps = 0\<rparr>"

record Balloon =
  btype :: Color
  maxPumps :: int

record HistoryEntry =
  h_type :: Color
  h_pumps :: int
  h_popped :: bool

text \<open>
  Fields that several levels share under one name in the source (\<^verbatim>\<open>stats\<close>,
  \<^verbatim>\<open>strategy\<close>, \<^verbatim>\<open>processedCount\<close>, \<^verbatim>\<open>isRunning\<close>, \<^verbatim>\<open>interval\<close>) carry the level as
  a prefix. A field that may be \<^verbatim>\<open>undefined\<close> when it is read through \<^verbatim>\<open>|| 0\<close> is an
  option. A timer handle is the boolean "the timer is set". \<open>popTimer\<close> stands for the
  pending \<^verbatim>\<open>setTimeout\<close> of \<^verbatim>\<open>handleL1Pop\<close>, whose handle the source does not keep.
  A strategy entry is the integer that \<^verbatim>\<open>parseInt\<close> reads from a slider.
\<close>

record L1State =
  l1_stats :: Stats
  balloonIndex :: nat
  history :: "HistoryEntry list"
  isPopping :: bool
  bestScore :: int
  currentBalloon :: "Balloon option"
  currentPumps :: int
  popTimer :: bool

record Performance =
  avgScore :: rat
  popRate :: rat
  perf_count :: int

record StrategyRecord =
  sr_strategy :: "Color \<Rightarrow> int"
  performance :: "Color \<Rightarrow> Performance"
  overallPopRate :: rat
  overallAvgScore :: rat
  totalProcessed :: int

record L2State =
  l2_stats :: Stats
  l2_processedCount :: int
  l2_strategy :: "Color \<Rightarrow> int"
  pastStrategies :: "StrategyRecord list"
  totalEarned :: "int option"
  l2_isRunning :: bool
  l2_interval :: bool

record L3State =
  l3_stats :: Stats
  totalScore :: int
  temperature :: int
  l3_strategy :: "Color \<Rightarrow> int"
  l3_processedCount :: "int option"
  l3_isRunning :: bool
  l3_interval :: bool
  tempInterval :: bool

record GameState =
  unlockedLevels :: int
  l1 :: L1State
  l2 :: L2State
  l3 :: L3State

text \<open>\<^verbatim>\<open>x || 0\<close> on a number that may be \<^verbatim>\<open>undefined\<close>.\<close>

fun orZero :: "int option \<Rightarrow> int" where
  "orZero None = 0"
| "orZero (Some x) = x"

subsection \<open>Level 2: the batch simulation\<close>

text \<open>\<^verbatim>\<open>updateL2Strategy\<close>; the argument is what the four sliders show.\<close>

definition updateL2Strategy :: "(Color \<Rightarrow> int) \<Rightarrow> GameState \<Rightarrow> GameState" where
  "updateL2Strategy sliders g = g\<lparr>l2 := (l2 g)\<lparr>l2_strategy := sliders\<rparr>\<rparr>"

definition resetL2Simulation :: "GameState \<Rightarrow> GameState" where
  "resetL2Simulation g =
     g\<lparr>l2 := (l2 g)\<lparr>l2_processedCount := 0,
                     totalEarned := Some 0,
                     l2_stats := (\<lambda>c. statsTemplate)\<rparr>\<rparr>"

text \<open>
  \<^verbatim>\<open>saveL2Strategy\<close>. The time stamp of a record is left out; the rates are exact
  quotients.
\<close>

definition saveL2Strategy :: "GameState \<Rightarrow> GameState" where
  "saveL2Strategy g =
     (let st = l2_stats (l2 g);
          perf = (\<lambda>color.
             \<lparr>avgScore = (if count (st color) > 0
                           then of_int (score (st color)) / of_int (count (st color)) else 0),
              popRate = (if count (st color) > 0
                           then of_int (pops (st color)) / of_int (count (st color)) * 100 else 0),
              perf_count = count (st color)\<rparr>);
          totalScore = score (st Red) + score (st Blue) + score (st Green) + score (st Yellow);
          totalPops = pops (st Red) + pops (st Blue) + pops (st Green) + pops (st Yellow);
          totalCount = count (st Red) + count (st Blue) + count (st Green) + count (st Yellow);
          strategyRecord =
             \<lparr>sr_strategy = l2_strategy (l2 g),
              performance = perf,
              overallPopRate =
                (if totalCount > 0 then of_int totalPops / of_int totalCount * 100 else 0),
              overallAvgScore =
                (if totalCount > 0 then of_int totalScore / of_int totalCount else 0),
              totalProcessed = l2_processedCount (l2 g)\<rparr>;
          past = strategyRecord # pastStrategies (l2 g)
      in g\<lparr>l2 := (l2 g)\<lparr>pastStrategies := (if length past > 3 then take 3 past else past)\<rparr>\<rparr>)"

definition endLevel2 :: "bool \<Rightarrow> GameState \<Rightarrow> GameState" where
  "endLevel2 isReview g =
     (if \<not> isReview
      then g\<lparr>unlockedLevels := max (unlockedLevels g) 3,
             l2 := (l2 g)\<lparr>l2_interval := False, l2_isRunning := False\<rparr>\<rparr>
      else g)"

text \<open>
  The callback that \<^verbatim>\<open>runL2Simulation\<close> hands to \<^verbatim>\<open>setInterval\<close>: one tick. It draws
  twice, first the colour, then \<^verbatim>\<open>maxPumps\<close>.
\<close>

definition runL2Tick :: "rat \<Rightarrow> rat \<Rightarrow> GameState \<Rightarrow> GameState" where
  "runL2Tick rand1 rand2 g =
     (if l2_processedCount (l2 g) \<ge> 100 then endLevel2 False g
      else
        let type = getL2RandomBalloon rand1;
            (mn, mx) = BALLOON_CONFIG_range type;
            maxPumps = getRandomInt rand2 mn mx;
            strategyPumps = l2_strategy (l2 g) type;
            st = l2_stats (l2 g);
            (scoreVal, st1) =
              (if strategyPumps > maxPumps
               then (0, st(type := (st type)\<lparr>pops := pops (st type) + 1\<rparr>))
               else (strategyPumps,
                     st(type := (st type)\<lparr>score := score (st type) + strategyPumps\<rparr>)));
            st2 = st1(type := (st1 type)\<lparr>count := count (st1 type) + 1\<rparr>)
        in g\<lparr>l2 := (l2 g)\<lparr>l2_stats := st2,
                           l2_processedCount := l2_processedCount (l2 g) + 1,
                           totalEarned := Some (orZero (totalEarned (l2 g)) + scoreVal)\<rparr>\<rparr>)"

definition runL2Simulation :: "GameState \<Rightarrow> GameState" where
  "runL2Simulation g = g\<lparr>l2 := (l2 g)\<lparr>l2_interval := True\<rparr>\<rparr>"

text \<open>The body of the \<^verbatim>\<open>for\<close> loop of \<^verbatim>\<open>skipL2ToEnd\<close>, and the loop.\<close>

definition skipL2Body :: "rat \<times> rat \<Rightarrow> GameState \<Rightarrow> GameState" where
  "skipL2Body rands g =
     (let color = getL2RandomBalloon (fst rands);
          config = BALLOON_CONFIG_range color;
          maxPumps = getRandomInt (snd rands) (fst config) (snd config);
          strategyPumps = l2_strategy (l2 g) color;
          st = l2_stats (l2 g);
          scoreVal = (if strategyPumps > maxPumps then 0 else strategyPumps);
          st1 = (if strategyPumps > maxPumps
                 then st(color := (st color)\<lparr>pops := pops (st color) + 1\<rparr>)
                 else st(color := (st color)\<lparr>score := score (st color) + scoreVal\<rparr>));
          st2 = st1(color := (st1 color)\<lparr>count := count (st1 color) + 1\<rparr>);
          g1 = g\<lparr>l2 := (l2 g)\<lparr>l2_stats := st2,
                              l2_processedCount := l2_processedCount (l2 g) + 1\<rparr>\<rparr>
      in g1\<lparr>l2 := (l2 g1)\<lparr>totalEarned := Some (orZero (totalEarned (l2 g1)) + scoreVal)\<rparr>\<rparr>)"

function skipL2Loop :: "(nat \<Rightarrow> rat \<times> rat) \<Rightarrow> int \<Rightarrow> int \<Rightarrow> GameState \<Rightarrow> GameState" where
  "skipL2Loop rands i remaining g =
     (if i < remaining then skipL2Loop rands (i + 1) remaining (skipL2Body (rands (nat i)) g)
      else g)"
  by pat_completeness auto
termination
  by (relation "measure (\<lambda>(rands, i, remaining, g). nat (remaining - i))") auto

declare skipL2Loop.simps [simp del]

text \<open>
  \<^verbatim>\<open>skipL2ToEnd\<close>; \<open>rands i\<close> are the two draws of iteration \<open>i\<close>. The delayed
  \<^verbatim>\<open>endLevel2(true)\<close> is applied at once: in review mode it writes to the page only.
\<close>

definition skipL2ToEnd :: "(nat \<Rightarrow> rat \<times> rat) \<Rightarrow> GameState \<Rightarrow> GameState" where
  "skipL2ToEnd rands g =
     (if \<not> l2_isRunning (l2 g) then g
      else
        let g1 = g\<lparr>l2 := (l2 g)\<lparr>l2_interval := False\<rparr>\<rparr>;
            remaining = 100 - l2_processedCount (l2 g1);
            g2 = skipL2Loop rands 0 remaining g1;
            g3 = saveL2Strategy g2
        in endLevel2 True g3)"

definition toggleL2Simulation :: "(Color \<Rightarrow> int) \<Rightarrow> GameState \<Rightarrow> GameState" where
  "toggleL2Simulation sliders g =
     (let g1 = g\<lparr>l2 := (l2 g)\<lparr>l2_isRunning := \<not> l2_isRunning (l2 g)\<rparr>\<rparr>
      in if l2_isRunning (l2 g1)
         then runL2Simulation (resetL2Simulation (updateL2Strategy sliders g1))
         else (let g2 = saveL2Strategy g1
               in g2\<lparr>l2 := (l2 g2)\<lparr>l2_interval := False\<rparr>\<rparr>))"

subsection \<open>Level 3: production and temperature drift\<close>

text \<open>The callback of \<^verbatim>\<open>runL3Simulation\<close>: one production tick.\<close>

definition runL3Tick :: "rat \<Rightarrow> rat \<Rightarrow> GameState \<Rightarrow> GameState" where
  "runL3Tick rand1 rand2 g =
     (let type = getL2RandomBalloon rand1;
          strategyPumps = l3_strategy (l3 g) type;
          (mn, mx) = l3Range type (temperature (l3 g));
          maxPumps = getRandomInt rand2 mn mx;
          st = l3_stats (l3 g);
          (scoreVal, st1, total1) =
            (if strategyPumps > maxPumps
             then (0, st(type := (st type)\<lparr>pops := pops (st type) + 1\<rparr>), totalScore (l3 g))
             else (strategyPumps,
                   st(type := (st type)\<lparr>score := score (st type) + strategyPumps\<rparr>),
                   totalScore (l3 g) + strategyPumps));
          st2 = st1(type := (st1 type)\<lparr>count := count (st1 type) + 1\<rparr>)
      in g\<lparr>l3 := (l3 g)\<lparr>l3_stats := st2,
                         totalScore := total1,
                         l3_processedCount := Some (orZero (l3_processedCount (l3 g)) + 1)\<rparr>\<rparr>)"

text \<open>
  \<^verbatim>\<open>updateTemp\<close>, the closure of \<^verbatim>\<open>runL3TempChanges\<close>: one drift step. The draw of the
  delay to the next step sets the timer and nothing else.
\<close>

definition updateTemp :: "rat \<Rightarrow> GameState \<Rightarrow> GameState" where
  "updateTemp rand g =
     (let change = getRandomInt rand (- 5) 5;
          t0 = temperature (l3 g) + change;
          t1 = (if t0 > 40 then 40 else t0);
          t2 = (if t1 < 0 then 0 else t1)
      in g\<lparr>l3 := (l3 g)\<lparr>temperature := t2, tempInterval := True\<rparr>\<rparr>)"

definition runL3TempChanges :: "rat \<Rightarrow> GameState \<Rightarrow> GameState" where
  "runL3TempChanges rand g = updateTemp rand g"

subsection \<open>Level 1: the manual sequence\<close>

datatype error = SyntaxError | TypeError

definition L1_SEQUENCE :: "Color list" where
  "L1_SEQUENCE = [Red, Red, Red, Red, Blue, Blue, Blue, Blue,
                  Green, Red, Blue, Green, Red, Blue, Green]"

text \<open>\<^verbatim>\<open>Object.values(gameState.l1.stats).reduce((sum, s) => sum + s.score, 0)\<close>.\<close>

definition l1TotalScore :: "Stats \<Rightarrow> int" where
  "l1TotalScore st = 0 + score (st Red) + score (st Blue) + score (st Green) + score (st Yellow)"

text \<open>
  \<^verbatim>\<open>renderL1\<close> writes to the page only, but it reads \<^verbatim>\<open>currentBalloon.colorClass\<close>:
  while \<^verbatim>\<open>currentBalloon\<close> is \<^verbatim>\<open>undefined\<close> it throws a \<^verbatim>\<open>TypeError\<close>.
\<close>

definition renderL1 :: "GameState \<Rightarrow> error + unit" where
  "renderL1 g = (case currentBalloon (l1 g) of None \<Rightarrow> Inl TypeError | Some b \<Rightarrow> Inr ())"

text \<open>
  \<^verbatim>\<open>endLevel1\<close> returns the state that it leaves and what it then shows: it has written
  the state and computed \<^verbatim>\<open>totalScore\<close> and \<^verbatim>\<open>isNewBest\<close> when it calls \<^verbatim>\<open>renderL1\<close>;
  if that throws, the summary is not written, and otherwise it shows the two values.
  \<^verbatim>\<open>bestScore\<close> is a number (the loader puts 0 for a missing one), on which
  \<^verbatim>\<open>bestScore || 0\<close> is \<^verbatim>\<open>bestScore\<close>.
\<close>

definition endLevel1 :: "bool \<Rightarrow> GameState \<Rightarrow> GameState \<times> (error + int \<times> bool)" where
  "endLevel1 isReview g =
     (let g1 = (if \<not> isReview
                then (let g' = g\<lparr>unlockedLevels := max (unlockedLevels g) 2\<rparr>;
                          totalScore = l1TotalScore (l1_stats (l1 g'))
                      in if totalScore > bestScore (l1 g')
                         then g'\<lparr>l1 := (l1 g')\<lparr>bestScore := totalScore\<rparr>\<rparr>
                         else g')
                else g);
          totalScore = l1TotalScore (l1_stats (l1 g1));
          isNewBest = (totalScore = bestScore (l1 g1) \<and> \<not> isReview)
      in (g1, case renderL1 g1 of
                Inl err \<Rightarrow> Inl err
              | Inr u \<Rightarrow> Inr (totalScore, isNewBest)))"

definition addToL1History :: "Color \<Rightarrow> int \<Rightarrow> bool \<Rightarrow> GameState \<Rightarrow> GameState" where
  "addToL1History type n popped g =
     (let h = \<lparr>h_type = type, h_pumps = n, h_popped = popped\<rparr> # history (l1 g)
      in g\<lparr>l1 := (l1 g)\<lparr>history := (if length h > 8 then butlast h else h)\<rparr>\<rparr>)"

text \<open>
  A handler that throws gives the error and no state: the run stops there. Reading a
  property of \<^verbatim>\<open>currentBalloon\<close> while it is \<^verbatim>\<open>undefined\<close> throws a \<^verbatim>\<open>TypeError\<close>.
\<close>

definition setupNextL1Balloon :: "rat \<Rightarrow> GameState \<Rightarrow> error + GameState" where
  "setupNextL1Balloon rand g =
     (let g1 = g\<lparr>l1 := (l1 g)\<lparr>isPopping := False\<rparr>\<rparr>
      in if balloonIndex (l1 g1) \<ge> length L1_SEQUENCE
         then (case snd (endLevel1 False g1) of
                 Inl err \<Rightarrow> Inl err
               | Inr shown \<Rightarrow> Inr (fst (endLevel1 False g1)))
         else
           let type = L1_SEQUENCE ! balloonIndex (l1 g1);
               (mn, mx) = BALLOON_CONFIG_range type;
               g2 = g1\<lparr>l1 := (l1 g1)\<lparr>currentBalloon :=
                                     Some \<lparr>btype = type, maxPumps = getRandomInt rand mn mx\<rparr>,
                                   currentPumps := 0\<rparr>\<rparr>
           in (case renderL1 g2 of Inl err \<Rightarrow> Inl err | Inr u \<Rightarrow> Inr g2))"

definition handleL1Pop :: "GameState \<Rightarrow> error + GameState" where
  "handleL1Pop g =
     (let g1 = g\<lparr>l1 := (l1 g)\<lparr>isPopping := True\<rparr>\<rparr>
      in case currentBalloon (l1 g1) of
           None \<Rightarrow> Inl TypeError
         | Some b \<Rightarrow>
             let type = btype b;
                 st = l1_stats (l1 g1);
                 g2 = g1\<lparr>l1 := (l1 g1)\<lparr>l1_stats :=
                            st(type := (st type)\<lparr>count := count (st type) + 1\<rparr>)\<rparr>\<rparr>;
                 g3 = addToL1History type (maxPumps b) True g2
             in Inr (g3\<lparr>l1 := (l1 g3)\<lparr>popTimer := True\<rparr>\<rparr>))"

text \<open>The callback that \<^verbatim>\<open>handleL1Pop\<close> hands to \<^verbatim>\<open>setTimeout\<close>.\<close>

definition l1PopTimeout :: "rat \<Rightarrow> GameState \<Rightarrow> error + GameState" where
  "l1PopTimeout rand g =
     (let g1 = g\<lparr>l1 := (l1 g)\<lparr>popTimer := False, balloonIndex := balloonIndex (l1 g) + 1\<rparr>\<rparr>
      in setupNextL1Balloon rand g1)"

definition handleL1Pump :: "GameState \<Rightarrow> error + GameState" where
  "handleL1Pump g =
     (if isPopping (l1 g) then Inr g
      else
        let g1 = g\<lparr>l1 := (l1 g)\<lparr>currentPumps := currentPumps (l1 g) + 1\<rparr>\<rparr>
        in case currentBalloon (l1 g1) of
             None \<Rightarrow> Inl TypeError
           | Some b \<Rightarrow>
               if currentPumps (l1 g1) > maxPumps b then handleL1Pop g1
               else (case renderL1 g1 of Inl err \<Rightarrow> Inl err | Inr u \<Rightarrow> Inr g1))"

definition handleL1Bank :: "rat \<Rightarrow> GameState \<Rightarrow> error + GameState" where
  "handleL1Bank rand g =
     (if isPopping (l1 g) then Inr g
      else
        case currentBalloon (l1 g) of
          None \<Rightarrow> Inl TypeError
        | Some b \<Rightarrow>
            let type = btype b;
                n = currentPumps (l1 g);
                st = l1_stats (l1 g);
                st1 = st(type := (st type)\<lparr>score := score (st type) + n\<rparr>);
                st2 = st1(type := (st1 type)\<lparr>pumps := pumps (st1 type) + n\<rparr>);
                st3 = st2(type := (st2 type)\<lparr>count := count (st2 type) + 1\<rparr>);
                g1 = g\<lparr>l1 := (l1 g)\<lparr>l1_stats := st3\<rparr>\<rparr>;
                g2 = addToL1History type n False g1;
                g3 = g2\<lparr>l1 := (l1 g2)\<lparr>balloonIndex := balloonIndex (l1 g2) + 1\<rparr>\<rparr>
            in setupNextL1Balloon rand g3)"

text \<open>
  \<^verbatim>\<open>resetStats('l1')\<close> on the record, \<^verbatim>\<open>startLevel1\<close> and \<^verbatim>\<open>replayLevel1\<close> (the button
  of the summary).
\<close>

definition resetStatsL1 :: "GameState \<Rightarrow> GameState" where
  "resetStatsL1 g =
     g\<lparr>l1 := (l1 g)\<lparr>l1_stats := (\<lambda>c. statsTemplate), history := [],
                     balloonIndex := 0, isPopping := False\<rparr>\<rparr>"

definition startLevel1 :: "rat \<Rightarrow> GameState \<Rightarrow> error + GameState" where
  "startLevel1 rand g =
     (if balloonIndex (l1 g) \<ge> length L1_SEQUENCE
      then (case snd (endLevel1 True g) of
              Inl err \<Rightarrow> Inl err
            | Inr shown \<Rightarrow> Inr (fst (endLevel1 True g)))
      else setupNextL1Balloon rand g)"

definition replayLevel1 :: "rat \<Rightarrow> GameState \<Rightarrow> error + GameState" where
  "replayLevel1 rand g = startLevel1 rand (resetStatsL1 g)"

subsection \<open>Runs: sequences of events\<close>

text \<open>
  What can happen on a level screen, one event after the other: a click on a button or a
  timer that fires. A timer fires only while it is set. A run stops at the first error.
  The events are those of the level itself; leaving the screen or resetting all progress
  while a timer is set is not among them.
\<close>

datatype L1Event = L1Pump | L1Bank rat | L1PopTimer rat

definition l1Step :: "L1Event \<Rightarrow> GameState \<Rightarrow> error + GameState" where
  "l1Step e g =
     (case e of
        L1Pump \<Rightarrow> handleL1Pump g
      | L1Bank rand \<Rightarrow> handleL1Bank rand g
      | L1PopTimer rand \<Rightarrow> (if popTimer (l1 g) then l1PopTimeout rand g else Inr g))"

fun l1Run :: "L1Event list \<Rightarrow> GameState \<Rightarrow> error + GameState" where
  "l1Run [] g = Inr g"
| "l1Run (e # es) g = (case l1Step e g of Inl err \<Rightarrow> Inl err | Inr g' \<Rightarrow> l1Run es g')"

datatype L2Event = L2Toggle "Color \<Rightarrow> int" | L2Tick rat rat | L2Skip "nat \<Rightarrow> rat \<times> rat"

definition l2Step :: "L2Event \<Rightarrow> GameState \<Rightarrow> GameState" where
  "l2Step e g =
     (case e of
        L2Toggle sliders \<Rightarrow> toggleL2Simulation sliders g
      | L2Tick rand1 rand2 \<Rightarrow> (if l2_interval (l2 g) then runL2Tick rand1 rand2 g else g)
      | L2Skip rands \<Rightarrow> skipL2ToEnd rands g)"

datatype L3Event = L3Tick rat rat | L3Temp rat

definition l3Step :: "L3Event \<Rightarrow> GameState \<Rightarrow> GameState" where
  "l3Step e g =
     (case e of
        L3Tick rand1 rand2 \<Rightarrow> runL3Tick rand1 rand2 g
      | L3Temp rand \<Rightarrow> updateTemp rand g)"

fun run :: "('e \<Rightarrow> GameState \<Rightarrow> GameState) \<Rightarrow> 'e list \<Rightarrow> GameState \<Rightarrow> GameState" where
  "run step [] g = g"
| "run step (e # es) g = run step es (step e g)"

subsection \<open>Outcomes of resolved balloons\<close>

text \<open>
  The statistics do not store the number of cash-outs. To speak about it, the outcome of
  each resolved balloon is read off the branch that the code takes: a pop where the
  pump count exceeds \<^verbatim>\<open>maxPumps\<close>, a cash-out otherwise.
\<close>

datatype Outcome = Pop | CashOut

definition cashOuts :: "Color \<Rightarrow> (Color \<times> Outcome) list \<Rightarrow> int" where
  "cashOuts c os = int (length (filter (\<lambda>x. x = (c, CashOut)) os))"

definition popsIn :: "Color \<Rightarrow> (Color \<times> Outcome) list \<Rightarrow> int" where
  "popsIn c os = int (length (filter (\<lambda>x. x = (c, Pop)) os))"

fun outcomes :: "('e \<Rightarrow> GameState \<Rightarrow> (Color \<times> Outcome) list) \<Rightarrow> ('e \<Rightarrow> GameState \<Rightarrow> GameState)
                   \<Rightarrow> 'e list \<Rightarrow> GameState \<Rightarrow> (Color \<times> Outcome) list" where
  "outcomes out step [] g = []"
| "outcomes out step (e # es) g = out e g @ outcomes out step es (step e g)"

text \<open>The balloon that two draws resolve in level 2, by a tick or by an iteration of the
  skip loop.\<close>

definition l2Outcome :: "rat \<times> rat \<Rightarrow> GameState \<Rightarrow> Color \<times> Outcome" where
  "l2Outcome rands g =
     (let type = getL2RandomBalloon (fst rands);
          maxPumps = getRandomInt (snd rands) (fst (BALLOON_CONFIG_range type))
                                               (snd (BALLOON_CONFIG_range type))
      in (type, if l2_strategy (l2 g) type > maxPumps then Pop else CashOut))"

definition l2Resolved :: "L2Event \<Rightarrow> GameState \<Rightarrow> (Color \<times> Outcome) list" where
  "l2Resolved e g =
     (case e of
        L2Toggle sliders \<Rightarrow> []
      | L2Tick rand1 rand2 \<Rightarrow>
          (if l2_interval (l2 g) \<and> l2_processedCount (l2 g) < 100
           then [l2Outcome (rand1, rand2) g] else [])
      | L2Skip rands \<Rightarrow>
          (if l2_isRunning (l2 g)
           then outcomes (\<lambda>d s. [l2Outcome d s]) skipL2Body
                  (map rands [0 ..< nat (100 - l2_processedCount (l2 g))]) g
           else []))"

definition l3Resolved :: "L3Event \<Rightarrow> GameState \<Rightarrow> (Color \<times> Outcome) list" where
  "l3Resolved e g =
     (case e of
        L3Tick rand1 rand2 \<Rightarrow>
          (let type = getL2RandomBalloon rand1;
               maxPumps = getRandomInt rand2 (fst (l3Range type (temperature (l3 g))))
                                             (snd (l3Range type (temperature (l3 g))))
           in [(type, if l3_strategy (l3 g) type > maxPumps then Pop else CashOut)])
      | L3Temp rand \<Rightarrow> [])"

definition l1Resolved :: "L1Event \<Rightarrow> GameState \<Rightarrow> (Color \<times> Outcome) list" where
  "l1Resolved e g =
     (case currentBalloon (l1 g) of
        None \<Rightarrow> []
      | Some b \<Rightarrow>
          (if isPopping (l1 g) then []
           else case e of
                  L1Pump \<Rightarrow> (if currentPumps (l1 g) + 1 > maxPumps b then [(btype b, Pop)] else [])
                | L1Bank rand \<Rightarrow> [(btype b, CashOut)]
                | L1PopTimer rand \<Rightarrow> []))"

fun l1Outcomes :: "L1Event list \<Rightarrow> GameState \<Rightarrow> (Color \<times> Outcome) list" where
  "l1Outcomes [] g = []"
| "l1Outcomes (e # es) g =
     l1Resolved e g @ (case l1Step e g of Inl err \<Rightarrow> [] | Inr g' \<Rightarrow> l1Outcomes es g')"

text \<open>The events of level 2 that resolve balloons are the ticks and the skip action.\<close>

fun isL2Toggle :: "L2Event \<Rightarrow> bool" where
  "isL2Toggle (L2Toggle sliders) = True"
| "isL2Toggle (L2Tick rand1 rand2) = False"
| "isL2Toggle (L2Skip rands) = False"


text \<open>
  The statistics of a colour after one balloon of levels 2 and 3: a pop counts in
  \<open>pops\<close>, a cash-out adds the configured pumps to \<open>score\<close>, both count in \<open>count\<close>,
  and \<open>pumps\<close> stays as it is.
\<close>

definition outcomeStat :: "int \<Rightarrow> int \<Rightarrow> ColorStat \<Rightarrow> ColorStat" where
  "outcomeStat sp mp s =
     (if sp > mp
      then s\<lparr>pops := pops s + 1, count := count s + 1\<rparr>
      else s\<lparr>score := score s + sp, count := count s + 1\<rparr>)"

text \<open>The sum over the four colours of \<^verbatim>\<open>stats[c].score\<close>.\<close>

definition scoreSum :: "Stats \<Rightarrow> int" where
  "scoreSum st = score (st Red) + score (st Blue) + score (st Green) + score (st Yellow)"


subsection \<open>Loading the persisted state\<close>

text \<open>
  \<^verbatim>\<open>loadGameState\<close> and \<^verbatim>\<open>initGame\<close> work on whatever \<^verbatim>\<open>JSON.parse\<close> returns, so here
  the game state is a JavaScript value and not the record above. An object is the list
  of its properties, read with \<open>map_of\<close>; an array carries its elements and the named
  properties that an assignment may add to it. Reading a property of \<^verbatim>\<open>undefined\<close> or
  \<^verbatim>\<open>null\<close> throws a \<^verbatim>\<open>TypeError\<close>, and so does writing one; reading one of the names
  the loader uses from a boolean, a number or a string gives \<^verbatim>\<open>undefined\<close>, and writing
  one to such a value does nothing (the script has no strict-mode directive).
\<close>

datatype jsval =
    JUndefined
  | JNull
  | JBool bool
  | JNum rat
  | JStr string
  | JArr "jsval list" "(string \<times> jsval) list"
  | JObj "(string \<times> jsval) list"


fun lookupProp :: "(string \<times> jsval) list \<Rightarrow> string \<Rightarrow> jsval" where
  "lookupProp ps k = (case map_of ps k of None \<Rightarrow> JUndefined | Some v \<Rightarrow> v)"

fun getProp :: "jsval \<Rightarrow> string \<Rightarrow> error + jsval" where
  "getProp JUndefined k = Inl TypeError"
| "getProp JNull k = Inl TypeError"
| "getProp (JObj ps) k = Inr (lookupProp ps k)"
| "getProp (JArr es ps) k = Inr (lookupProp ps k)"
| "getProp v k = Inr JUndefined"












text \<open>
  To state what a load yields: \<open>peek\<close> reads a property and gives \<^verbatim>\<open>undefined\<close> where the
  read would throw; \<open>isObject\<close> and \<open>hasLevels\<close> say that a document is an object whose
  \<^verbatim>\<open>l1\<close>, \<^verbatim>\<open>l2\<close> and \<^verbatim>\<open>l3\<close> are objects; \<open>loadable\<close> is that, or no stored text.
\<close>

definition peek :: "jsval \<Rightarrow> string \<Rightarrow> jsval" where
  "peek v k = (case getProp v k of Inl e \<Rightarrow> JUndefined | Inr x \<Rightarrow> x)"












subsection \<open>Concrete states\<close>

text \<open>
  The state of a first visit: \<^verbatim>\<open>getDefaultGameState()\<close> after \<^verbatim>\<open>initGame\<close> has reset
  the statistics of the three levels. The strategy objects are empty then; their entries
  are written from the sliders before a simulation reads them, and stand at 0 here.
\<close>

definition freshGameState :: GameState where
  "freshGameState =
     \<lparr>unlockedLevels = 1,
      l1 = \<lparr>l1_stats = (\<lambda>c. statsTemplate), balloonIndex = 0, history = [],
            isPopping = False, bestScore = 0, currentBalloon = None, currentPumps = 0,
            popTimer = False\<rparr>,
      l2 = \<lparr>l2_stats = (\<lambda>c. statsTemplate), l2_processedCount = 0, l2_strategy = (\<lambda>c. 0),
            pastStrategies = [], totalEarned = None, l2_isRunning = False,
            l2_interval = False\<rparr>,
      l3 = \<lparr>l3_stats = (\<lambda>c. statsTemplate), totalScore = 0, temperature = 20,
            l3_strategy = (\<lambda>c. 0), l3_processedCount = None, l3_isRunning = False,
            l3_interval = False, tempInterval = False\<rparr>\<rparr>"

fun sliders0 :: "Color \<Rightarrow> int" where
  "sliders0 Red = 8"
| "sliders0 Blue = 5"
| "sliders0 Green = 6"
| "sliders0 Yellow = 10"

text \<open>Level 2 just started with the sliders at 8, 5, 6 and 10; level 1 completed before.\<close>

definition l2Started :: GameState where
  "l2Started = toggleL2Simulation sliders0 (freshGameState\<lparr>unlockedLevels := 2\<rparr>)"

text \<open>Level 1 showing its first balloon, a red one that bears 6 pumps.\<close>

definition l1Started :: GameState where
  "l1Started =
     (case setupNextL1Balloon 0 freshGameState of Inl err \<Rightarrow> freshGameState | Inr g \<Rightarrow> g)"

text \<open>
  A play of level 1: each of the 15 balloons is pumped once and cashed out, and every
  draw is 0, so that a balloon bears the least of its range.
\<close>

definition firstPlay :: "L1Event list" where
  "firstPlay =
     [L1Pump, L1Bank 0, L1Pump, L1Bank 0, L1Pump, L1Bank 0, L1Pump, L1Bank 0, L1Pump, L1Bank 0,
      L1Pump, L1Bank 0, L1Pump, L1Bank 0, L1Pump, L1Bank 0, L1Pump, L1Bank 0, L1Pump, L1Bank 0,
      L1Pump, L1Bank 0, L1Pump, L1Bank 0, L1Pump, L1Bank 0, L1Pump, L1Bank 0, L1Pump, L1Bank 0]"

text \<open>A better play: each balloon is pumped twice and cashed out.\<close>

definition doublePlay :: "L1Event list" where
  "doublePlay =
     [L1Pump, L1Pump, L1Bank 0, L1Pump, L1Pump, L1Bank 0, L1Pump, L1Pump, L1Bank 0,
      L1Pump, L1Pump, L1Bank 0, L1Pump, L1Pump, L1Bank 0, L1Pump, L1Pump, L1Bank 0,
      L1Pump, L1Pump, L1Bank 0, L1Pump, L1Pump, L1Bank 0, L1Pump, L1Pump, L1Bank 0,
      L1Pump, L1Pump, L1Bank 0, L1Pump, L1Pump, L1Bank 0, L1Pump, L1Pump, L1Bank 0,
      L1Pump, L1Pump, L1Bank 0, L1Pump, L1Pump, L1Bank 0, L1Pump, L1Pump, L1Bank 0]"

text \<open>
  The state in which the play \<open>firstPlay\<close> calls \<^verbatim>\<open>endLevel1()\<close>, after the last
  cash-out: six red, six blue and three green balloons cashed out at one pump each.
  \<open>best\<close> is the best score before: 0 in a first play, and level 2 is unlocked once a
  play has completed.
\<close>

fun playedStats :: "Color \<Rightarrow> ColorStat" where
  "playedStats Red = \<lparr>score = 6, pops = 0, count = 6, pumps = 6\<rparr>"
| "playedStats Blue = \<lparr>score = 6, pops = 0, count = 6, pumps = 6\<rparr>"
| "playedStats Green = \<lparr>score = 3, pops = 0, count = 3, pumps = 3\<rparr>"
| "playedStats Yellow = \<lparr>score = 0, pops = 0, count = 0, pumps = 0\<rparr>"

definition playedHistory :: "HistoryEntry list" where
  "playedHistory =
     [\<lparr>h_type = Green, h_pumps = 1, h_popped = False\<rparr>,
      \<lparr>h_type = Blue, h_pumps = 1, h_popped = False\<rparr>,
      \<lparr>h_type = Red, h_pumps = 1, h_popped = False\<rparr>,
      \<lparr>h_type = Green, h_pumps = 1, h_popped = False\<rparr>,
      \<lparr>h_type = Blue, h_pumps = 1, h_popped = False\<rparr>,
      \<lparr>h_type = Red, h_pumps = 1, h_popped = False\<rparr>,
      \<lparr>h_type = Green, h_pumps = 1, h_popped = False\<rparr>,
      \<lparr>h_type = Blue, h_pumps = 1, h_popped = False\<rparr>]"

definition l1AtEnd :: "int \<Rightarrow> GameState" where
  "l1AtEnd best =
     freshGameState\<lparr>unlockedLevels := (if best = 0 then 1 else 2),
       l1 := \<lparr>l1_stats = playedStats, balloonIndex = 15, history = playedHistory,
              isPopping = False, bestScore = best,
              currentBalloon = Some \<lparr>btype = Green, maxPumps = 2\<rparr>, currentPumps = 1,
              popTimer = False\<rparr>\<rparr>"


section \<open>Properties\<close>

text \<open>
  Claim C9. For every balloon colour and every temperature (so in particular for every
  temperature from 0 to 40), the skewed range \<open>(min', max')\<close> that the level 3 resolver
  computes satisfies \<open>max' \<ge> min' + 1\<close>.
\<close>

theorem l3Range_width:
  "snd (l3Range c t) \<ge> fst (l3Range c t) + 1"
  by (simp add: l3Range_def Let_def split: prod.split)

text \<open>
  Claim C8. After every temperature-drift step of level 3 the temperature lies between
  0 and 40, whatever number is drawn and whatever the temperature was before.
\<close>

theorem updateTemp_clamped:
  "0 \<le> temperature (l3 (updateTemp rand g)) \<and> temperature (l3 (updateTemp rand g)) \<le> 40"
  by (simp add: updateTemp_def Let_def)

subsection \<open>The outcome of one balloon\<close>

lemma runL2Tick_stats:
  "l2_processedCount (l2 g) < 100 \<Longrightarrow>
   l2_stats (l2 (runL2Tick rand1 rand2 g)) =
     (l2_stats (l2 g))(getL2RandomBalloon rand1 :=
        outcomeStat (l2_strategy (l2 g) (getL2RandomBalloon rand1))
          (getRandomInt rand2 (fst (BALLOON_CONFIG_range (getL2RandomBalloon rand1)))
                              (snd (BALLOON_CONFIG_range (getL2RandomBalloon rand1))))
          (l2_stats (l2 g) (getL2RandomBalloon rand1)))"
  by (simp add: runL2Tick_def outcomeStat_def Let_def split: prod.splits)

lemma skipL2Body_stats:
  "l2_stats (l2 (skipL2Body (rand1, rand2) g)) =
     (l2_stats (l2 g))(getL2RandomBalloon rand1 :=
        outcomeStat (l2_strategy (l2 g) (getL2RandomBalloon rand1))
          (getRandomInt rand2 (fst (BALLOON_CONFIG_range (getL2RandomBalloon rand1)))
                              (snd (BALLOON_CONFIG_range (getL2RandomBalloon rand1))))
          (l2_stats (l2 g) (getL2RandomBalloon rand1)))"
  by (simp add: skipL2Body_def outcomeStat_def Let_def)

lemma runL3Tick_stats:
  "l3_stats (l3 (runL3Tick rand1 rand2 g)) =
     (l3_stats (l3 g))(getL2RandomBalloon rand1 :=
        outcomeStat (l3_strategy (l3 g) (getL2RandomBalloon rand1))
          (getRandomInt rand2 (fst (l3Range (getL2RandomBalloon rand1) (temperature (l3 g))))
                              (snd (l3Range (getL2RandomBalloon rand1) (temperature (l3 g)))))
          (l3_stats (l3 g) (getL2RandomBalloon rand1)))"
  by (simp add: runL3Tick_def outcomeStat_def Let_def split: prod.splits)

lemma draw_red: "getL2RandomBalloon 0 = Red"
  by (simp add: getL2RandomBalloon_def)

lemma draw_half_red: "getRandomInt (1 / 2) 6 12 = 9"
  by (simp add: getRandomInt_def floor_eq_iff)

lemma l3Range_Red_20: "l3Range Red 20 = (6, 12)"
  by code_simp

lemmas l2Started_simps =
  l2Started_def toggleL2Simulation_def runL2Simulation_def resetL2Simulation_def
  updateL2Strategy_def freshGameState_def statsTemplate_def Let_def

text \<open>
  Claim C1, as stated, fails: a cash-out of levels 2 and 3 does not add the pumps to
  \<open>stats[c].pumps\<close>. In the level 2 run just started with 8 pumps for red, the draws 0
  and 1/2 give a red balloon that bears 9 pumps; the tick cashes out 8, and the pumps of
  red are not 0 + 8.
\<close>

theorem balloon_outcome_pumps_counterexample:
  "getL2RandomBalloon 0 = Red \<and> getRandomInt (1 / 2) 6 12 = 9 \<and>
   l2_strategy (l2 l2Started) Red = 8 \<and> l2_processedCount (l2 l2Started) < 100 \<and>
   score (l2_stats (l2 (runL2Tick 0 (1 / 2) l2Started)) Red) = 8 \<and>
   pumps (l2_stats (l2 (runL2Tick 0 (1 / 2) l2Started)) Red)
     \<noteq> pumps (l2_stats (l2 l2Started) Red) + l2_strategy (l2 l2Started) Red"
  by (simp add: runL2Tick_def l2Started_simps draw_red draw_half_red)

text \<open>
  Claim C1, amended. For a balloon of colour \<open>c\<close> resolved by a tick of level 2 (while
  fewer than 100 balloons are processed), by an iteration of the skip loop or by a
  production tick of level 3, with the configured pumps \<open>sp\<close> and the drawn
  \<open>maxPumps\<close>: if \<open>sp > maxPumps\<close> the pops of \<open>c\<close> grow by 1 and its score stays;
  otherwise its score grows by \<open>sp\<close>; in both cases its count grows by 1; its pumps
  field and the statistics of the other colours stay as they are.
\<close>

theorem balloon_outcome:
  "let c = getL2RandomBalloon rand1;
       range2 = BALLOON_CONFIG_range c;
       range3 = l3Range c (temperature (l3 g))
   in (l2_processedCount (l2 g) < 100 \<longrightarrow>
         l2_stats (l2 (runL2Tick rand1 rand2 g)) =
           (l2_stats (l2 g))(c := outcomeStat (l2_strategy (l2 g) c)
              (getRandomInt rand2 (fst range2) (snd range2)) (l2_stats (l2 g) c)))
    \<and> l2_stats (l2 (skipL2Body (rand1, rand2) g)) =
           (l2_stats (l2 g))(c := outcomeStat (l2_strategy (l2 g) c)
              (getRandomInt rand2 (fst range2) (snd range2)) (l2_stats (l2 g) c))
    \<and> l3_stats (l3 (runL3Tick rand1 rand2 g)) =
           (l3_stats (l3 g))(c := outcomeStat (l3_strategy (l3 g) c)
              (getRandomInt rand2 (fst range3) (snd range3)) (l3_stats (l3 g) c))"
  unfolding Let_def
  using runL2Tick_stats [of g rand1 rand2] skipL2Body_stats [of rand1 rand2 g]
    runL3Tick_stats [of rand1 rand2 g]
  by blast

theorem balloon_outcome_witness:
  "l2_processedCount (l2 l2Started) < 100 \<and>
   l2_stats (l2 (runL2Tick 0 (1 / 2) l2Started)) Red
     = \<lparr>score = 8, pops = 0, count = 1, pumps = 0\<rparr> \<and>
   l3_stats (l3 (runL3Tick 0 (1 / 2) l2Started)) Red
     = \<lparr>score = 0, pops = 0, count = 1, pumps = 0\<rparr>"
proof -
  have pc: "l2_processedCount (l2 l2Started) < 100"
    by (simp add: l2Started_simps)
  have t: "temperature (l3 l2Started) = 20"
    by (simp add: l2Started_simps)
  from balloon_outcome [of 0 l2Started "1 / 2"] pc
  have "l2_stats (l2 (runL2Tick 0 (1 / 2) l2Started)) Red
          = outcomeStat (l2_strategy (l2 l2Started) Red) 9 (l2_stats (l2 l2Started) Red)"
   and "l3_stats (l3 (runL3Tick 0 (1 / 2) l2Started)) Red
          = outcomeStat (l3_strategy (l3 l2Started) Red) 9 (l3_stats (l3 l2Started) Red)"
    by (simp_all add: Let_def draw_red draw_half_red t l3Range_Red_20)
  moreover have "outcomeStat (l2_strategy (l2 l2Started) Red) 9 (l2_stats (l2 l2Started) Red)
          = \<lparr>score = 8, pops = 0, count = 1, pumps = 0\<rparr>"
    by (simp add: l2Started_simps outcomeStat_def)
  moreover have "outcomeStat (l3_strategy (l3 l2Started) Red) 9 (l3_stats (l3 l2Started) Red)
          = \<lparr>score = 0, pops = 0, count = 1, pumps = 0\<rparr>"
    by (simp add: l2Started_simps outcomeStat_def)
  ultimately show ?thesis using pc by simp
qed

subsection \<open>Starting the level 2 simulation\<close>

text \<open>
  Claim C10. Every start of the level 2 simulation, whether from a stopped simulation or
  as the resume after a pause of a running one, leaves the simulation running with its
  timer set, \<open>processedCount\<close> and \<open>totalEarned\<close> at 0 and the statistics of all four
  colours at zero; the first tick after it processes balloon number 1.
\<close>

theorem l2_start_resets:
  "let started = (if l2_isRunning (l2 g)
                  then toggleL2Simulation sliders' (toggleL2Simulation sliders g)
                  else toggleL2Simulation sliders g)
   in l2_isRunning (l2 started) \<and> l2_interval (l2 started) \<and>
      l2_processedCount (l2 started) = 0 \<and> totalEarned (l2 started) = Some 0 \<and>
      l2_stats (l2 started) = (\<lambda>c. \<lparr>score = 0, pops = 0, count = 0, pumps = 0\<rparr>) \<and>
      l2_processedCount (l2 (runL2Tick rand1 rand2 started)) = 1"
  by (simp add: toggleL2Simulation_def runL2Simulation_def resetL2Simulation_def
        updateL2Strategy_def saveL2Strategy_def runL2Tick_def statsTemplate_def Let_def
        split: prod.splits)

subsection \<open>The best score of level 1\<close>

text \<open>
  Claim C5. When level 1 completes outside review mode, with \<open>tot\<close> the sum of the
  scores of the four colours: \<open>bestScore\<close> does not decrease; it becomes \<open>tot\<close> if
  \<open>tot\<close> is strictly greater and stays otherwise; and the completion shows \<open>tot\<close> and
  is flagged as a new best exactly when \<open>tot\<close> is at least the old \<open>bestScore\<close>, so
  also on an exact tie. In review mode the state stays as it is and nothing is flagged.
  (Without a current balloon the call throws before it shows anything.)
\<close>

theorem endLevel1_bestScore:
  "let tot = score (l1_stats (l1 g) Red) + score (l1_stats (l1 g) Blue)
             + score (l1_stats (l1 g) Green) + score (l1_stats (l1 g) Yellow);
       best = bestScore (l1 g);
       g' = fst (endLevel1 False g)
   in bestScore (l1 g') \<ge> best \<and>
      bestScore (l1 g') = (if tot > best then tot else best) \<and>
      (currentBalloon (l1 g) \<noteq> None \<longrightarrow> snd (endLevel1 False g) = Inr (tot, tot \<ge> best)) \<and>
      (currentBalloon (l1 g) = None \<longrightarrow> snd (endLevel1 False g) = Inl TypeError) \<and>
      fst (endLevel1 True g) = g \<and>
      (currentBalloon (l1 g) \<noteq> None \<longrightarrow> snd (endLevel1 True g) = Inr (tot, False))"
  by (auto simp add: endLevel1_def renderL1_def l1TotalScore_def Let_def)

lemmas l1_play_simps =
  firstPlay_def l1Step_def handleL1Pump_def handleL1Bank_def setupNextL1Balloon_def
  endLevel1_def renderL1_def addToL1History_def l1TotalScore_def playedHistory_def
  L1_SEQUENCE_def getRandomInt_def freshGameState_def statsTemplate_def Let_def

lemma l1Started_unfold:
  "l1Started = freshGameState\<lparr>l1 := (l1 freshGameState)\<lparr>currentBalloon :=
                  Some \<lparr>btype = Red, maxPumps = 6\<rparr>\<rparr>\<rparr>"
  by (simp add: l1Started_def setupNextL1Balloon_def renderL1_def freshGameState_def
        L1_SEQUENCE_def getRandomInt_def Let_def)

lemma all_Color: "(\<forall>c. P c) = (P Red \<and> P Blue \<and> P Green \<and> P Yellow)"
  by (metis Color.exhaust)

text \<open>
  Three completions of real plays. The first play from the first balloon of level 1 ends
  in the state that \<^verbatim>\<open>endLevel1()\<close> leaves from \<open>l1AtEnd 0\<close>, which is \<open>l1AtEnd 15\<close>.
  The replay button and the same play again end in the state that \<^verbatim>\<open>endLevel1()\<close>
  leaves from \<open>l1AtEnd 15\<close>. And after the better play, which scores 30, the replay
  button and \<open>firstPlay\<close> end in the state that it leaves from \<open>l1AtEnd 30\<close>.
\<close>

lemma firstPlay_completes:
  "l1Run firstPlay l1Started = Inr (fst (endLevel1 False (l1AtEnd 0)))"
  by (simp add: l1Started_unfold l1AtEnd_def l1_play_simps fun_eq_iff all_Color)

lemma first_completion_state:
  "fst (endLevel1 False (l1AtEnd 0)) = l1AtEnd 15"
  by (simp add: l1AtEnd_def l1_play_simps)

lemma replay_completes:
  "(case replayLevel1 0 (l1AtEnd 15) of
      Inl err \<Rightarrow> Inl err
    | Inr g \<Rightarrow> l1Run firstPlay g) = Inr (fst (endLevel1 False (l1AtEnd 15)))"
  by (simp add: replayLevel1_def startLevel1_def resetStatsL1_def l1AtEnd_def l1_play_simps
        fun_eq_iff all_Color)

lemma doublePlay_replay_completes:
  "(case l1Run doublePlay l1Started of
      Inl err \<Rightarrow> Inl err
    | Inr g \<Rightarrow>
        (case replayLevel1 0 g of
           Inl err \<Rightarrow> Inl err
         | Inr g0 \<Rightarrow> l1Run firstPlay g0)) = Inr (fst (endLevel1 False (l1AtEnd 30)))"
  by (simp add: doublePlay_def replayLevel1_def startLevel1_def resetStatsL1_def
        l1Started_unfold l1AtEnd_def l1_play_simps fun_eq_iff all_Color)

theorem endLevel1_bestScore_witness:
  "l1Run firstPlay l1Started = Inr (fst (endLevel1 False (l1AtEnd 0))) \<and>
   currentBalloon (l1 (l1AtEnd 0)) \<noteq> None \<and>
   bestScore (l1 (l1AtEnd 0)) = 0 \<and>
   snd (endLevel1 False (l1AtEnd 0)) = Inr (15, True) \<and>
   bestScore (l1 (fst (endLevel1 False (l1AtEnd 0)))) = 15 \<and>
   (case replayLevel1 0 (l1AtEnd 15) of
      Inl err \<Rightarrow> Inl err
    | Inr g \<Rightarrow> l1Run firstPlay g) = Inr (fst (endLevel1 False (l1AtEnd 15))) \<and>
   currentBalloon (l1 (l1AtEnd 15)) \<noteq> None \<and>
   bestScore (l1 (l1AtEnd 15)) = 15 \<and>
   snd (endLevel1 False (l1AtEnd 15)) = Inr (15, True) \<and>
   bestScore (l1 (fst (endLevel1 False (l1AtEnd 15)))) = 15 \<and>
   (case l1Run doublePlay l1Started of
      Inl err \<Rightarrow> Inl err
    | Inr g \<Rightarrow>
        (case replayLevel1 0 g of
           Inl err \<Rightarrow> Inl err
         | Inr g0 \<Rightarrow> l1Run firstPlay g0)) = Inr (fst (endLevel1 False (l1AtEnd 30))) \<and>
   currentBalloon (l1 (l1AtEnd 30)) \<noteq> None \<and>
   bestScore (l1 (l1AtEnd 30)) = 30 \<and>
   snd (endLevel1 False (l1AtEnd 30)) = Inr (15, False) \<and>
   bestScore (l1 (fst (endLevel1 False (l1AtEnd 30)))) = 30 \<and>
   snd (endLevel1 True (l1AtEnd 15)) = Inr (15, False)"
proof -
  have c: "currentBalloon (l1 (l1AtEnd best)) \<noteq> None"
    and b: "bestScore (l1 (l1AtEnd best)) = best"
    and t: "score (l1_stats (l1 (l1AtEnd best)) Red) + score (l1_stats (l1 (l1AtEnd best)) Blue)
            + score (l1_stats (l1 (l1AtEnd best)) Green)
            + score (l1_stats (l1 (l1AtEnd best)) Yellow) = 15" for best
    by (simp_all add: l1AtEnd_def freshGameState_def)
  from endLevel1_bestScore [of "l1AtEnd 0"] endLevel1_bestScore [of "l1AtEnd 15"]
    endLevel1_bestScore [of "l1AtEnd 30"]
  have "snd (endLevel1 False (l1AtEnd 0)) = Inr (15, True) \<and>
        bestScore (l1 (fst (endLevel1 False (l1AtEnd 0)))) = 15 \<and>
        snd (endLevel1 False (l1AtEnd 15)) = Inr (15, True) \<and>
        bestScore (l1 (fst (endLevel1 False (l1AtEnd 15)))) = 15 \<and>
        snd (endLevel1 False (l1AtEnd 30)) = Inr (15, False) \<and>
        bestScore (l1 (fst (endLevel1 False (l1AtEnd 30)))) = 30 \<and>
        snd (endLevel1 True (l1AtEnd 15)) = Inr (15, False)"
    unfolding Let_def t b using c by simp
  with c b firstPlay_completes replay_completes doublePlay_replay_completes
  show ?thesis by blast
qed

subsection \<open>Level 2: skip-to-end and the ticked run\<close>

lemma skipL2Body_fields [simp]:
  "l2_processedCount (l2 (skipL2Body d g)) = l2_processedCount (l2 g) + 1"
  "l2_strategy (l2 (skipL2Body d g)) = l2_strategy (l2 g)"
  "l2_isRunning (l2 (skipL2Body d g)) = l2_isRunning (l2 g)"
  "l2_interval (l2 (skipL2Body d g)) = l2_interval (l2 g)"
  "unlockedLevels (skipL2Body d g) = unlockedLevels g"
  "l3 (skipL2Body d g) = l3 g"
  "l1 (skipL2Body d g) = l1 g"
  by (simp_all add: skipL2Body_def Let_def)

lemma run_skipL2Body_fields [simp]:
  "l2_processedCount (l2 (run skipL2Body ds g)) = l2_processedCount (l2 g) + int (length ds)"
  "l2_strategy (l2 (run skipL2Body ds g)) = l2_strategy (l2 g)"
  "l2_isRunning (l2 (run skipL2Body ds g)) = l2_isRunning (l2 g)"
  "l2_interval (l2 (run skipL2Body ds g)) = l2_interval (l2 g)"
  "unlockedLevels (run skipL2Body ds g) = unlockedLevels g"
  "l3 (run skipL2Body ds g) = l3 g"
  "l1 (run skipL2Body ds g) = l1 g"
  by (induction ds arbitrary: g; simp)+

lemma skipL2Loop_run:
  "0 \<le> i \<Longrightarrow> skipL2Loop rands i remaining g = run skipL2Body (map rands [nat i ..< nat remaining]) g"
proof (induction rands i remaining g rule: skipL2Loop.induct)
  case (1 rands i remaining g)
  show ?case
  proof (cases "i < remaining")
    case True
    with "1.prems" have u: "[nat i ..< nat remaining] = nat i # [nat (i + 1) ..< nat remaining]"
      by (simp add: upt_conv_Cons nat_add_distrib)
    from True "1.prems" "1.IH" show ?thesis
      by (subst skipL2Loop.simps) (simp add: u)
  next
    case False
    then show ?thesis
      by (subst skipL2Loop.simps) simp
  qed
qed

lemma runL2Tick_eq_skipL2Body:
  "l2_processedCount (l2 g) < 100 \<Longrightarrow> runL2Tick (fst d) (snd d) g = skipL2Body d g"
  by (simp add: runL2Tick_def skipL2Body_def Let_def split: prod.splits)

lemma run_ticks_eq_run_body:
  "l2_processedCount (l2 g) + int (length ds) \<le> 100 \<Longrightarrow>
   run (\<lambda>d. runL2Tick (fst d) (snd d)) ds g = run skipL2Body ds g"
  by (induction ds arbitrary: g) (simp_all add: runL2Tick_eq_skipL2Body)

lemma skipL2Body_cong:
  "l2_stats (l2 g) = l2_stats (l2 g') \<Longrightarrow> l2_processedCount (l2 g) = l2_processedCount (l2 g') \<Longrightarrow>
   totalEarned (l2 g) = totalEarned (l2 g') \<Longrightarrow> l2_strategy (l2 g) = l2_strategy (l2 g') \<Longrightarrow>
   l2_stats (l2 (skipL2Body d g)) = l2_stats (l2 (skipL2Body d g')) \<and>
   totalEarned (l2 (skipL2Body d g)) = totalEarned (l2 (skipL2Body d g'))"
  by (simp add: skipL2Body_def Let_def)

lemma run_skipL2Body_cong:
  "l2_stats (l2 g) = l2_stats (l2 g') \<Longrightarrow> l2_processedCount (l2 g) = l2_processedCount (l2 g') \<Longrightarrow>
   totalEarned (l2 g) = totalEarned (l2 g') \<Longrightarrow> l2_strategy (l2 g) = l2_strategy (l2 g') \<Longrightarrow>
   l2_stats (l2 (run skipL2Body ds g)) = l2_stats (l2 (run skipL2Body ds g')) \<and>
   totalEarned (l2 (run skipL2Body ds g)) = totalEarned (l2 (run skipL2Body ds g'))"
proof (induction ds arbitrary: g g')
  case Nil
  then show ?case by simp
next
  case (Cons d ds)
  have "l2_stats (l2 (run skipL2Body ds (skipL2Body d g)))
          = l2_stats (l2 (run skipL2Body ds (skipL2Body d g'))) \<and>
        totalEarned (l2 (run skipL2Body ds (skipL2Body d g)))
          = totalEarned (l2 (run skipL2Body ds (skipL2Body d g')))"
  proof (rule Cons.IH)
    show "l2_stats (l2 (skipL2Body d g)) = l2_stats (l2 (skipL2Body d g'))"
      using skipL2Body_cong [OF Cons.prems] by blast
    show "totalEarned (l2 (skipL2Body d g)) = totalEarned (l2 (skipL2Body d g'))"
      using skipL2Body_cong [OF Cons.prems] by blast
    show "l2_processedCount (l2 (skipL2Body d g)) = l2_processedCount (l2 (skipL2Body d g'))"
      using Cons.prems(2) by simp
    show "l2_strategy (l2 (skipL2Body d g)) = l2_strategy (l2 (skipL2Body d g'))"
      using Cons.prems(4) by simp
  qed
  then show ?case by simp
qed

lemma skipL2ToEnd_unfold:
  "l2_isRunning (l2 g) \<Longrightarrow>
   skipL2ToEnd rands g =
     saveL2Strategy (run skipL2Body (map rands [0 ..< nat (100 - l2_processedCount (l2 g))])
                       (g\<lparr>l2 := (l2 g)\<lparr>l2_interval := False\<rparr>\<rparr>))"
  by (simp add: skipL2ToEnd_def Let_def endLevel2_def skipL2Loop_run)

lemma saveL2Strategy_fields [simp]:
  "l2_stats (l2 (saveL2Strategy g)) = l2_stats (l2 g)"
  "l2_processedCount (l2 (saveL2Strategy g)) = l2_processedCount (l2 g)"
  "totalEarned (l2 (saveL2Strategy g)) = totalEarned (l2 g)"
  "l2_strategy (l2 (saveL2Strategy g)) = l2_strategy (l2 g)"
  "l2_isRunning (l2 (saveL2Strategy g)) = l2_isRunning (l2 g)"
  "l2_interval (l2 (saveL2Strategy g)) = l2_interval (l2 g)"
  "unlockedLevels (saveL2Strategy g) = unlockedLevels g"
  "l3 (saveL2Strategy g) = l3 g"
  "l1 (saveL2Strategy g) = l1 g"
  by (simp_all add: saveL2Strategy_def Let_def)

lemma runL2Tick_done:
  "l2_processedCount (l2 g) \<ge> 100 \<Longrightarrow>
   l2_stats (l2 (runL2Tick rand1 rand2 g)) = l2_stats (l2 g) \<and>
   l2_processedCount (l2 (runL2Tick rand1 rand2 g)) = l2_processedCount (l2 g) \<and>
   totalEarned (l2 (runL2Tick rand1 rand2 g)) = totalEarned (l2 g) \<and>
   unlockedLevels (runL2Tick rand1 rand2 g) = max (unlockedLevels g) 3"
  by (simp add: runL2Tick_def endLevel2_def)

text \<open>
  Claim C7. On a running level 2 simulation, skip-to-end and the ticked run that draws
  the same numbers for each of the remaining \<open>100 - processedCount\<close> balloons end with
  the same statistics of every colour, the same \<open>processedCount\<close> and the same
  \<open>totalEarned\<close>; the tick that then ends the ticked run changes none of them.
\<close>

theorem skip_matches_ticks:
  "l2_isRunning (l2 g) \<Longrightarrow>
   (let n = nat (100 - l2_processedCount (l2 g));
        skipped = skipL2ToEnd rands g;
        ticked = run (\<lambda>d. runL2Tick (fst d) (snd d)) (map rands [0 ..< n]) g;
        ended = runL2Tick rand1 rand2 ticked
    in l2_stats (l2 skipped) = l2_stats (l2 ticked) \<and>
       l2_processedCount (l2 skipped) = l2_processedCount (l2 ticked) \<and>
       totalEarned (l2 skipped) = totalEarned (l2 ticked) \<and>
       l2_stats (l2 skipped) = l2_stats (l2 ended) \<and>
       l2_processedCount (l2 skipped) = l2_processedCount (l2 ended) \<and>
       totalEarned (l2 skipped) = totalEarned (l2 ended))"
proof -
  assume running: "l2_isRunning (l2 g)"
  define n where "n = nat (100 - l2_processedCount (l2 g))"
  define ds where "ds = map rands [0 ..< n]"
  define g1 where "g1 = g\<lparr>l2 := (l2 g)\<lparr>l2_interval := False\<rparr>\<rparr>"
  define ticked where "ticked = run (\<lambda>d. runL2Tick (fst d) (snd d)) ds g"
  have len: "l2_processedCount (l2 g) + int (length ds) \<le> 100 \<or> ds = []"
    by (auto simp add: ds_def n_def)
  have t: "ticked = run skipL2Body ds g"
    using len unfolding ticked_def by (auto simp add: run_ticks_eq_run_body)
  have s: "skipL2ToEnd rands g = saveL2Strategy (run skipL2Body ds g1)"
    using running by (simp add: skipL2ToEnd_unfold ds_def n_def g1_def)
  have c: "l2_stats (l2 (run skipL2Body ds g1)) = l2_stats (l2 (run skipL2Body ds g)) \<and>
           totalEarned (l2 (run skipL2Body ds g1)) = totalEarned (l2 (run skipL2Body ds g))"
    by (rule run_skipL2Body_cong) (simp_all add: g1_def)
  have p: "l2_processedCount (l2 (run skipL2Body ds g1)) = l2_processedCount (l2 (run skipL2Body ds g))"
    by (simp add: g1_def)
  have full: "l2_processedCount (l2 ticked) \<ge> 100"
    unfolding t by (simp add: ds_def n_def)
  from runL2Tick_done [OF full, of rand1 rand2] s t c p
  show ?thesis
    unfolding Let_def n_def [symmetric] ds_def [symmetric] ticked_def [symmetric]
    by simp
qed

theorem skip_matches_ticks_witness:
  "l2_isRunning (l2 l2Started) \<and>
   l2_stats (l2 (skipL2ToEnd (\<lambda>i. (0, 1 / 2)) l2Started))
     = l2_stats (l2 (run (\<lambda>d. runL2Tick (fst d) (snd d))
                       (map (\<lambda>i. (0, 1 / 2)) [0 ..< 100]) l2Started)) \<and>
   l2_processedCount (l2 (skipL2ToEnd (\<lambda>i. (0, 1 / 2)) l2Started))
     = l2_processedCount (l2 (run (\<lambda>d. runL2Tick (fst d) (snd d))
                       (map (\<lambda>i. (0, 1 / 2)) [0 ..< 100]) l2Started)) \<and>
   totalEarned (l2 (skipL2ToEnd (\<lambda>i. (0, 1 / 2)) l2Started))
     = totalEarned (l2 (run (\<lambda>d. runL2Tick (fst d) (snd d))
                       (map (\<lambda>i. (0, 1 / 2)) [0 ..< 100]) l2Started))"
proof -
  have r: "l2_isRunning (l2 l2Started)"
    by (simp add: l2Started_simps)
  have n: "nat (100 - l2_processedCount (l2 l2Started)) = 100"
    by (simp add: l2Started_simps)
  from skip_matches_ticks [OF r, of "\<lambda>i. (0, 1 / 2)" 0 0] r show ?thesis
    unfolding Let_def n by blast
qed

subsection \<open>Level 2: completion of a run\<close>

lemma skipL2Body_total:
  "totalEarned (l2 g) = Some (scoreSum (l2_stats (l2 g))) \<Longrightarrow>
   totalEarned (l2 (skipL2Body d g)) = Some (scoreSum (l2_stats (l2 (skipL2Body d g))))"
  by (cases "getL2RandomBalloon (fst d)") (simp_all add: skipL2Body_def scoreSum_def Let_def)

lemma run_skipL2Body_total:
  "totalEarned (l2 g) = Some (scoreSum (l2_stats (l2 g))) \<Longrightarrow>
   totalEarned (l2 (run skipL2Body ds g)) = Some (scoreSum (l2_stats (l2 (run skipL2Body ds g))))"
  by (induction ds arbitrary: g) (simp_all add: skipL2Body_total)

lemma skipL2ToEnd_fields:
  assumes "l2_isRunning (l2 g)"
  shows "unlockedLevels (skipL2ToEnd rands g) = unlockedLevels g"
    and "l2_isRunning (l2 (skipL2ToEnd rands g))"
    and "\<not> l2_interval (l2 (skipL2ToEnd rands g))"
    and "l2_processedCount (l2 g) \<le> 100 \<Longrightarrow> l2_processedCount (l2 (skipL2ToEnd rands g)) = 100"
    and "totalEarned (l2 g) = Some (scoreSum (l2_stats (l2 g))) \<Longrightarrow>
         totalEarned (l2 (skipL2ToEnd rands g))
           = Some (scoreSum (l2_stats (l2 (skipL2ToEnd rands g))))"
  using assms by (simp_all add: skipL2ToEnd_unfold run_skipL2Body_total)








text \<open>
  Claim C3 does not hold of the skip action. In the level 2 run just started with level
  2 as the highest unlocked level, skip-to-end brings \<open>processedCount\<close> to 100 and
  leaves \<open>unlockedLevels\<close> at 2: it ends the level through \<^verbatim>\<open>endLevel2(true)\<close>, which
  skips the unlocking. The ticked run from the same state, with the same draws, unlocks
  level 3 on the tick that ends it.
\<close>

theorem skip_keeps_level3_locked:
  "l2_isRunning (l2 l2Started) \<and> unlockedLevels l2Started = 2 \<and>
   l2_processedCount (l2 (skipL2ToEnd (\<lambda>i. (0, 1 / 2)) l2Started)) = 100 \<and>
   unlockedLevels (skipL2ToEnd (\<lambda>i. (0, 1 / 2)) l2Started) = 2 \<and>
   l2_processedCount (l2 (run (\<lambda>d. runL2Tick (fst d) (snd d))
                            (map (\<lambda>i. (0, 1 / 2)) [0 ..< 100]) l2Started)) = 100 \<and>
   unlockedLevels (runL2Tick 0 (1 / 2)
                     (run (\<lambda>d. runL2Tick (fst d) (snd d))
                        (map (\<lambda>i. (0, 1 / 2)) [0 ..< 100]) l2Started)) = 3"
proof -
  have r: "l2_isRunning (l2 l2Started)" and u: "unlockedLevels l2Started = 2"
    and p: "l2_processedCount (l2 l2Started) \<le> 100"
    and z: "l2_processedCount (l2 l2Started) = 0"
    by (simp_all add: l2Started_simps)
  have t: "run (\<lambda>d. runL2Tick (fst d) (snd d)) (map (\<lambda>i. (0, 1 / 2)) [0 ..< 100]) l2Started
             = run skipL2Body (map (\<lambda>i. (0, 1 / 2)) [0 ..< 100]) l2Started"
    by (rule run_ticks_eq_run_body) (simp add: z)
  have d: "l2_processedCount (l2 (run skipL2Body (map (\<lambda>i. (0, 1 / 2)) [0 ..< 100]) l2Started))
             \<ge> 100"
    by (simp add: z)
  from runL2Tick_done [OF d, of 0 "1 / 2"] skipL2ToEnd_fields(1,4) [OF r] r u p z
  show ?thesis unfolding t by simp
qed

subsection \<open>Counts, pops and cash-outs\<close>

lemma cashOuts_simps [simp]:
  "cashOuts c [] = 0"
  "cashOuts c (xs @ ys) = cashOuts c xs + cashOuts c ys"
  "popsIn c [] = 0"
  "popsIn c (xs @ ys) = popsIn c xs + popsIn c ys"
  by (simp_all add: cashOuts_def popsIn_def)

lemma run_net:
  assumes step: "\<And>e g. P e \<Longrightarrow> N (step e g) = N g + cashOuts c (out e g)"
  shows "\<forall>e \<in> set evs. P e \<Longrightarrow> N (run step evs g) = N g + cashOuts c (outcomes out step evs g)"
  by (induction evs arbitrary: g) (simp_all add: step)

lemma l2Outcome_skipL2Body [simp]: "l2Outcome d (skipL2Body d' g) = l2Outcome d g"
  by (simp add: l2Outcome_def)

lemma skipL2Body_net:
  "count (l2_stats (l2 (skipL2Body d g)) c) - pops (l2_stats (l2 (skipL2Body d g)) c)
     = count (l2_stats (l2 g) c) - pops (l2_stats (l2 g) c) + cashOuts c [l2Outcome d g]"
  by (simp add: skipL2Body_def l2Outcome_def cashOuts_def Let_def)

lemma run_skipL2Body_net:
  "count (l2_stats (l2 (run skipL2Body ds g)) c) - pops (l2_stats (l2 (run skipL2Body ds g)) c)
     = count (l2_stats (l2 g) c) - pops (l2_stats (l2 g) c)
       + cashOuts c (outcomes (\<lambda>d s. [l2Outcome d s]) skipL2Body ds g)"
  by (rule run_net [where P = "\<lambda>d. True"]) (simp_all add: skipL2Body_net)

lemma l2Step_net:
  assumes "\<not> isL2Toggle e"
  shows "count (l2_stats (l2 (l2Step e g)) c) - pops (l2_stats (l2 (l2Step e g)) c)
           = count (l2_stats (l2 g) c) - pops (l2_stats (l2 g) c) + cashOuts c (l2Resolved e g)"
proof (cases e)
  case (L2Toggle sliders)
  with assms show ?thesis by simp
next
  case (L2Tick rand1 rand2)
  show ?thesis
  proof (cases "l2_interval (l2 g) \<and> l2_processedCount (l2 g) < 100")
    case True
    then have "runL2Tick rand1 rand2 g = skipL2Body (rand1, rand2) g"
      using runL2Tick_eq_skipL2Body [of g "(rand1, rand2)"] by simp
    with True L2Tick show ?thesis
      by (simp add: l2Step_def l2Resolved_def skipL2Body_net)
  next
    case False
    with L2Tick runL2Tick_done [of g rand1 rand2] show ?thesis
      by (auto simp add: l2Step_def l2Resolved_def)
  qed
next
  case (L2Skip rands)
  show ?thesis
  proof (cases "l2_isRunning (l2 g)")
    case True
    define ds where "ds = map rands [0 ..< nat (100 - l2_processedCount (l2 g))]"
    define g1 where "g1 = g\<lparr>l2 := (l2 g)\<lparr>l2_interval := False\<rparr>\<rparr>"
    have "l2_stats (l2 (run skipL2Body ds g1)) = l2_stats (l2 (run skipL2Body ds g))"
      using run_skipL2Body_cong [of g1 g ds] by (simp add: g1_def)
    then have "l2_stats (l2 (skipL2ToEnd rands g)) = l2_stats (l2 (run skipL2Body ds g))"
      using True by (simp add: skipL2ToEnd_unfold ds_def g1_def)
    with True L2Skip run_skipL2Body_net [of ds g c] show ?thesis
      by (simp add: l2Step_def l2Resolved_def ds_def)
  next
    case False
    with L2Skip show ?thesis
      by (simp add: l2Step_def l2Resolved_def skipL2ToEnd_def)
  qed
qed

lemma l3Step_net:
  "count (l3_stats (l3 (l3Step e g)) c) - pops (l3_stats (l3 (l3Step e g)) c)
     = count (l3_stats (l3 g) c) - pops (l3_stats (l3 g) c) + cashOuts c (l3Resolved e g)"
  by (cases e)
     (simp_all add: l3Step_def l3Resolved_def runL3Tick_def updateTemp_def cashOuts_def Let_def
        split: prod.splits)

lemma l2_run_net:
  "\<forall>e \<in> set evs. \<not> isL2Toggle e \<Longrightarrow>
   count (l2_stats (l2 (run l2Step evs g)) c) - pops (l2_stats (l2 (run l2Step evs g)) c)
     = count (l2_stats (l2 g) c) - pops (l2_stats (l2 g) c)
       + cashOuts c (outcomes l2Resolved l2Step evs g)"
  by (rule run_net [where P = "\<lambda>e. \<not> isL2Toggle e"]) (simp_all add: l2Step_net)

lemma l3_run_net:
  "count (l3_stats (l3 (run l3Step evs g)) c) - pops (l3_stats (l3 (run l3Step evs g)) c)
     = count (l3_stats (l3 g) c) - pops (l3_stats (l3 g) c)
       + cashOuts c (outcomes l3Resolved l3Step evs g)"
  by (rule run_net [where P = "\<lambda>e. True"]) (simp_all add: l3Step_net)

lemma setupNextL1Balloon_stats:
  "setupNextL1Balloon rand g = Inr g' \<Longrightarrow> l1_stats (l1 g') = l1_stats (l1 g)"
  by (auto simp add: setupNextL1Balloon_def endLevel1_def renderL1_def Let_def
        split: prod.splits if_splits option.splits sum.splits)

lemma addToL1History_stats [simp]:
  "l1_stats (l1 (addToL1History type n popped g)) = l1_stats (l1 g)"
  by (simp add: addToL1History_def Let_def)

lemma handleL1Pop_stats:
  "handleL1Pop g = Inr g' \<Longrightarrow> currentBalloon (l1 g) = Some b \<Longrightarrow>
   l1_stats (l1 g') = (l1_stats (l1 g))(btype b :=
      (l1_stats (l1 g) (btype b))\<lparr>count := count (l1_stats (l1 g) (btype b)) + 1\<rparr>)"
  by (auto simp add: handleL1Pop_def Let_def)

lemma l1Step_counts:
  assumes "l1Step e g = Inr g'"
  shows "count (l1_stats (l1 g') c)
           = count (l1_stats (l1 g) c) + cashOuts c (l1Resolved e g) + popsIn c (l1Resolved e g)
         \<and> pops (l1_stats (l1 g') c) = pops (l1_stats (l1 g) c)"
proof (cases e)
  case L1Pump
  show ?thesis
  proof (cases "currentBalloon (l1 g)")
    case None
    with assms L1Pump show ?thesis
      by (auto simp add: l1Step_def handleL1Pump_def l1Resolved_def Let_def split: if_splits)
  next
    case (Some b)
    show ?thesis
    proof (cases "isPopping (l1 g)")
      case True
      with assms L1Pump Some show ?thesis
        by (auto simp add: l1Step_def handleL1Pump_def l1Resolved_def Let_def)
    next
      case False
      show ?thesis
      proof (cases "currentPumps (l1 g) + 1 > maxPumps b")
        case True
        with assms L1Pump Some False
        have "handleL1Pop (g\<lparr>l1 := (l1 g)\<lparr>currentPumps := currentPumps (l1 g) + 1\<rparr>\<rparr>) = Inr g'"
          by (simp add: l1Step_def handleL1Pump_def Let_def)
        from handleL1Pop_stats [OF this, of b] Some True False L1Pump show ?thesis
          by (simp add: l1Resolved_def cashOuts_def popsIn_def)
      next
        case nopop: False
        with assms L1Pump Some False show ?thesis
          by (auto simp add: l1Step_def handleL1Pump_def l1Resolved_def renderL1_def Let_def)
      qed
    qed
  qed
next
  case (L1Bank rand)
  show ?thesis
  proof (cases "isPopping (l1 g) \<or> currentBalloon (l1 g) = None")
    case True
    with assms L1Bank show ?thesis
      by (auto simp add: l1Step_def handleL1Bank_def l1Resolved_def
            split: option.splits if_splits)
  next
    case False
    then obtain b where b: "currentBalloon (l1 g) = Some b" and p: "\<not> isPopping (l1 g)"
      by auto
    from assms L1Bank b p obtain g3 where
      s: "setupNextL1Balloon rand g3 = Inr g'"
      and st: "l1_stats (l1 g3) = (l1_stats (l1 g))(btype b :=
                 (l1_stats (l1 g) (btype b))\<lparr>score := score (l1_stats (l1 g) (btype b))
                                                    + currentPumps (l1 g),
                    pumps := pumps (l1_stats (l1 g) (btype b)) + currentPumps (l1 g),
                    count := count (l1_stats (l1 g) (btype b)) + 1\<rparr>)"
      by (simp add: l1Step_def handleL1Bank_def addToL1History_def Let_def)
    from setupNextL1Balloon_stats [OF s] st b p L1Bank show ?thesis
      by (simp add: l1Resolved_def cashOuts_def popsIn_def)
  qed
next
  case (L1PopTimer rand)
  show ?thesis
  proof (cases "popTimer (l1 g)")
    case True
    with assms L1PopTimer have
      "setupNextL1Balloon rand
         (g\<lparr>l1 := (l1 g)\<lparr>popTimer := False, balloonIndex := balloonIndex (l1 g) + 1\<rparr>\<rparr>) = Inr g'"
      by (simp add: l1Step_def l1PopTimeout_def Let_def)
    from setupNextL1Balloon_stats [OF this] L1PopTimer show ?thesis
      by (simp add: l1Resolved_def split: option.splits)
  next
    case False
    with assms L1PopTimer show ?thesis
      by (auto simp add: l1Step_def l1Resolved_def split: option.splits)
  qed
qed

lemma l1Run_counts:
  "l1Run evs g = Inr g' \<Longrightarrow>
   count (l1_stats (l1 g') c)
     = count (l1_stats (l1 g) c) + cashOuts c (l1Outcomes evs g) + popsIn c (l1Outcomes evs g)
   \<and> pops (l1_stats (l1 g') c) = pops (l1_stats (l1 g) c)"
proof (induction evs arbitrary: g)
  case Nil
  then show ?case by simp
next
  case (Cons e es)
  from Cons.prems obtain g1 where s: "l1Step e g = Inr g1" and r: "l1Run es g1 = Inr g'"
    by (auto split: sum.splits)
  from Cons.IH [OF r] l1Step_counts [OF s, of c] s show ?case
    by simp
qed

lemma l1Started_eq:
  "l1Started = freshGameState\<lparr>l1 := (l1 freshGameState)\<lparr>currentBalloon :=
                  Some \<lparr>btype = Red, maxPumps = 6\<rparr>\<rparr>\<rparr>"
  by (simp add: l1Started_def setupNextL1Balloon_def renderL1_def freshGameState_def
        L1_SEQUENCE_def getRandomInt_def Let_def)

lemma seven_pumps:
  "l1Run [L1Pump, L1Pump, L1Pump, L1Pump, L1Pump, L1Pump, L1Pump] l1Started
     = Inr (freshGameState\<lparr>l1 := (l1 freshGameState)\<lparr>
              l1_stats := (\<lambda>c. statsTemplate)(Red := \<lparr>score = 0, pops = 0, count = 1, pumps = 0\<rparr>),
              history := [\<lparr>h_type = Red, h_pumps = 6, h_popped = True\<rparr>],
              isPopping := True,
              currentBalloon := Some \<lparr>btype = Red, maxPumps = 6\<rparr>,
              currentPumps := 7,
              popTimer := True\<rparr>\<rparr>)"
  by (simp add: l1Started_eq l1Step_def handleL1Pump_def handleL1Pop_def addToL1History_def
        renderL1_def freshGameState_def statsTemplate_def Let_def)

lemma seven_pumps_outcomes:
  "l1Outcomes [L1Pump, L1Pump, L1Pump, L1Pump, L1Pump, L1Pump, L1Pump] l1Started = [(Red, Pop)]"
  by (simp add: l1Started_eq l1Step_def l1Resolved_def handleL1Pump_def handleL1Pop_def
        addToL1History_def renderL1_def freshGameState_def statsTemplate_def Let_def)

text \<open>
  Claim C2, as stated, fails in level 1: \<^verbatim>\<open>handleL1Pop\<close> counts the balloon in \<open>count\<close>
  and not in \<open>pops\<close>. After seven pumps on the first balloon, a red one that bears 6,
  the balloon has popped: the count of red is 1, its pops are 0 and no cash-out has
  happened.
\<close>

theorem level1_pop_counterexample:
  "(case l1Run [L1Pump, L1Pump, L1Pump, L1Pump, L1Pump, L1Pump, L1Pump] l1Started of
      Inl err \<Rightarrow> False
    | Inr g \<Rightarrow>
        l1Outcomes [L1Pump, L1Pump, L1Pump, L1Pump, L1Pump, L1Pump, L1Pump] l1Started
          = [(Red, Pop)] \<and>
        history (l1 g) = [\<lparr>h_type = Red, h_pumps = 6, h_popped = True\<rparr>] \<and>
        count (l1_stats (l1 g) Red) = 1 \<and>
        pops (l1_stats (l1 g) Red) = 0 \<and>
        count (l1_stats (l1 g) Red)
          \<noteq> pops (l1_stats (l1 g) Red)
            + cashOuts Red
                (l1Outcomes [L1Pump, L1Pump, L1Pump, L1Pump, L1Pump, L1Pump, L1Pump] l1Started))"
  unfolding seven_pumps seven_pumps_outcomes
  by (simp add: cashOuts_def freshGameState_def)

text \<open>
  Claim C2, amended. For every colour \<open>c\<close>, from zeroed statistics of \<open>c\<close>: after any
  sequence of ticks and skips of level 2, and after any sequence of production ticks and
  temperature steps of level 3, \<open>stats[c].count\<close> is \<open>stats[c].pops\<close> plus the number of
  cash-outs of \<open>c\<close>; after any sequence of pumps, cash-outs and pop timers of level 1
  that raises no error, \<open>stats[c].count\<close> is the number of cash-outs of \<open>c\<close> plus the
  number of its pops, and \<open>stats[c].pops\<close> is still 0.
\<close>

theorem count_pops_cash_outs:
  "(l2_stats (l2 g) c = statsTemplate \<and> (\<forall>e \<in> set evs2. \<not> isL2Toggle e) \<longrightarrow>
      count (l2_stats (l2 (run l2Step evs2 g)) c)
        = pops (l2_stats (l2 (run l2Step evs2 g)) c)
          + cashOuts c (outcomes l2Resolved l2Step evs2 g))
   \<and> (l3_stats (l3 g) c = statsTemplate \<longrightarrow>
      count (l3_stats (l3 (run l3Step evs3 g)) c)
        = pops (l3_stats (l3 (run l3Step evs3 g)) c)
          + cashOuts c (outcomes l3Resolved l3Step evs3 g))
   \<and> (l1_stats (l1 g) c = statsTemplate \<and> l1Run evs1 g = Inr g1 \<longrightarrow>
      count (l1_stats (l1 g1) c)
        = cashOuts c (l1Outcomes evs1 g) + popsIn c (l1Outcomes evs1 g)
      \<and> pops (l1_stats (l1 g1) c) = 0)"
proof (intro conjI impI)
  assume "l2_stats (l2 g) c = statsTemplate \<and> (\<forall>e \<in> set evs2. \<not> isL2Toggle e)"
  with l2_run_net [of evs2 g c]
  show "count (l2_stats (l2 (run l2Step evs2 g)) c)
        = pops (l2_stats (l2 (run l2Step evs2 g)) c)
          + cashOuts c (outcomes l2Resolved l2Step evs2 g)"
    by (simp add: statsTemplate_def)
next
  assume "l3_stats (l3 g) c = statsTemplate"
  with l3_run_net [of evs3 g c]
  show "count (l3_stats (l3 (run l3Step evs3 g)) c)
        = pops (l3_stats (l3 (run l3Step evs3 g)) c)
          + cashOuts c (outcomes l3Resolved l3Step evs3 g)"
    by (simp add: statsTemplate_def)
next
  assume a: "l1_stats (l1 g) c = statsTemplate \<and> l1Run evs1 g = Inr g1"
  then have r: "l1Run evs1 g = Inr g1" by simp
  from l1Run_counts [OF r, of c] a
  show "count (l1_stats (l1 g1) c)
        = cashOuts c (l1Outcomes evs1 g) + popsIn c (l1Outcomes evs1 g)"
    and "pops (l1_stats (l1 g1) c) = 0"
    by (simp_all add: statsTemplate_def)
qed

theorem count_pops_cash_outs_witness:
  "l2_stats (l2 l2Started) Red = statsTemplate \<and>
   \<not> isL2Toggle (L2Tick 0 (1 / 2)) \<and>
   l3_stats (l3 l2Started) Red = statsTemplate \<and>
   count (l2_stats (l2 (run l2Step [L2Tick 0 (1 / 2)] l2Started)) Red)
     = pops (l2_stats (l2 (run l2Step [L2Tick 0 (1 / 2)] l2Started)) Red)
       + cashOuts Red (outcomes l2Resolved l2Step [L2Tick 0 (1 / 2)] l2Started) \<and>
   count (l3_stats (l3 (run l3Step [L3Tick 0 (1 / 2)] l2Started)) Red)
     = pops (l3_stats (l3 (run l3Step [L3Tick 0 (1 / 2)] l2Started)) Red)
       + cashOuts Red (outcomes l3Resolved l3Step [L3Tick 0 (1 / 2)] l2Started) \<and>
   l1_stats (l1 l1Started) Red = statsTemplate \<and>
   (case l1Run [L1Pump, L1Pump, L1Pump, L1Pump, L1Pump, L1Pump, L1Pump] l1Started of
      Inl err \<Rightarrow> False
    | Inr g1 \<Rightarrow> count (l1_stats (l1 g1) Red) = 1 \<and> pops (l1_stats (l1 g1) Red) = 0)"
proof -
  have a: "l2_stats (l2 l2Started) Red = statsTemplate"
    and b: "l3_stats (l3 l2Started) Red = statsTemplate"
    and c: "l1_stats (l1 l1Started) Red = statsTemplate"
    by (simp_all add: l2Started_simps l1Started_eq)
  have d: "\<forall>e \<in> set [L2Tick 0 (1 / 2)]. \<not> isL2Toggle e"
    by simp
  obtain g1 where r: "l1Run [L1Pump, L1Pump, L1Pump, L1Pump, L1Pump, L1Pump, L1Pump] l1Started
                        = Inr g1"
    using seven_pumps by blast
  from count_pops_cash_outs [of l2Started Red "[L2Tick 0 (1 / 2)]" "[L3Tick 0 (1 / 2)]"] a b d
  have "count (l2_stats (l2 (run l2Step [L2Tick 0 (1 / 2)] l2Started)) Red)
     = pops (l2_stats (l2 (run l2Step [L2Tick 0 (1 / 2)] l2Started)) Red)
       + cashOuts Red (outcomes l2Resolved l2Step [L2Tick 0 (1 / 2)] l2Started)"
   and "count (l3_stats (l3 (run l3Step [L3Tick 0 (1 / 2)] l2Started)) Red)
     = pops (l3_stats (l3 (run l3Step [L3Tick 0 (1 / 2)] l2Started)) Red)
       + cashOuts Red (outcomes l3Resolved l3Step [L3Tick 0 (1 / 2)] l2Started)"
    by blast+
  moreover
  from count_pops_cash_outs [of l1Started Red "[]" "[]"
      "[L1Pump, L1Pump, L1Pump, L1Pump, L1Pump, L1Pump, L1Pump]" g1] c r
  have "count (l1_stats (l1 g1) Red) = cashOuts Red [(Red, Pop)] + popsIn Red [(Red, Pop)]
        \<and> pops (l1_stats (l1 g1) Red) = 0"
    unfolding seven_pumps_outcomes by blast
  then have "count (l1_stats (l1 g1) Red) = 1 \<and> pops (l1_stats (l1 g1) Red) = 0"
    by (simp add: cashOuts_def popsIn_def)
  ultimately show ?thesis using a b c d unfolding r by simp
qed

subsection \<open>Loading the persisted state\<close>


lemma peek_JObj: "peek (JObj ps) k = lookupProp ps k"
  by (simp add: peek_def)













end
